theory Spec2Isabelle
  imports Main "HOL-Library.Word"
begin

unbundle bit_operations_syntax

section \<open>Data model of \<open>src/api/accountApi.ts\<close>\<close>

text \<open>
  The account API works on the \<open>Wallet\<close> and \<open>Account\<close> objects of the ontology SDK.
  An account is identified by \<open>address.toBase58()\<close>, modelled as the string field
  \<open>address\<close>; the remaining fields are opaque strings. A JavaScript string is the list
  of its code units. \<open>defaultAccountAddress\<close> may be \<open>null\<close>/\<open>undefined\<close> in a wallet read
  from storage, which is \<open>None\<close> here.
\<close>

type_synonym byte = "8 word"

datatype error =
    Error string   \<comment> \<open>\<open>throw new Error(msg)\<close>\<close>
  | RangeError     \<comment> \<open>a read past the end of a buffer\<close>

record Account =
  address :: string
  label :: string
  publicKey :: string
  salt :: string
  encryptedKey :: string

text \<open>\<open>wallet.scrypt\<close> with its fields \<open>n\<close>, \<open>r\<close>, \<open>p\<close> and \<open>dkLen\<close>, in this order.\<close>

datatype Scrypt = Scrypt nat nat nat nat

record Wallet =
  accounts :: "Account list"
  defaultAccountAddress :: "string option"
  scrypt :: Scrypt

text \<open>The parameter \<open>wallet: string | Wallet\<close> of the API functions.\<close>

datatype WalletArg = Encoded string | Loaded Wallet

text \<open>
  The collaborators outside \<open>accountApi.ts\<close>: \<open>getWallet\<close> of \<open>./authApi\<close>, which
  deserialises a wallet and may throw, and the SDK method \<open>Wallet.toJson\<close>.
\<close>

record Persistence =
  getWallet :: "string \<Rightarrow> error + Wallet"
  toJson :: "Wallet \<Rightarrow> string"

text \<open>\<open>if (typeof wallet === 'string') wallet = getWallet(wallet)\<close>\<close>

fun resolveWallet :: "Persistence \<Rightarrow> WalletArg \<Rightarrow> error + Wallet" where
  "resolveWallet env (Encoded s) = getWallet env s"
| "resolveWallet env (Loaded w) = Inr w"

section \<open>\<open>getAccount\<close>\<close>

text \<open>
  \<open>Array.prototype.find\<close> is \<open>find\<close> of the list library (first match, \<open>None\<close> for
  \<open>undefined\<close>); \<open>wallet.accounts[0]\<close> on an empty array is \<open>undefined\<close>, so the
  result is an \<open>Account option\<close>.
\<close>

definition getAccount_loaded :: "Wallet \<Rightarrow> error + Account option" where
  "getAccount_loaded w =
     (case defaultAccountAddress w of
        None \<Rightarrow> Inr (case accounts w of [] \<Rightarrow> None | a0 # _ \<Rightarrow> Some a0)
      | Some defaultAddress \<Rightarrow>
          if defaultAddress \<noteq> [] then
            (case find (\<lambda>a. address a = defaultAddress) (accounts w) of
               None \<Rightarrow> Inl (Error ''Default account not found in wallet'')
             | Some account \<Rightarrow> Inr (Some account))
          else Inr (case accounts w of [] \<Rightarrow> None | a0 # _ \<Rightarrow> Some a0))"

definition getAccount :: "Persistence \<Rightarrow> WalletArg \<Rightarrow> error + Account option" where
  "getAccount env arg =
     (case resolveWallet env arg of
        Inl e \<Rightarrow> Inl e
      | Inr w \<Rightarrow> getAccount_loaded w)"

section \<open>\<open>isTorusAccount\<close>\<close>

text \<open>
  \<open>String.prototype.split\<close> with a one-character separator and no limit: the pieces
  between the separators, in order; there is always at least one piece.
\<close>

fun String_split :: "char \<Rightarrow> string \<Rightarrow> string list" where
  "String_split sep [] = [[]]"
| "String_split sep (c # cs) =
     (if c = sep then [] # String_split sep cs
      else (c # hd (String_split sep cs)) # tl (String_split sep cs))"

definition isTorusAccount :: "Account \<Rightarrow> bool" where
  "isTorusAccount account =
     (let torusType = String_split CHR ''@'' (label account)
      in length torusType = 2 \<and>
         (torusType ! 1 = ''google'' \<or> torusType ! 1 = ''discord''))"

section \<open>\<open>filterTorusAccount\<close>\<close>

text \<open>
  The \<open>for ... of\<close> loop over \<open>wallet.accounts\<close>, with the array being built and the
  wallet's \<open>defaultAccountAddress\<close> as the loop state.
\<close>

fun filterTorus_loop ::
  "Account list \<Rightarrow> Account list \<times> string option \<Rightarrow> Account list \<times> string option" where
  "filterTorus_loop [] (accountsWithouTorus, d) = (accountsWithouTorus, d)"
| "filterTorus_loop (account # rest) (accountsWithouTorus, d) =
     (if \<not> isTorusAccount account
      then filterTorus_loop rest (accountsWithouTorus @ [account], d)
      else if Some (address account) = d
      then filterTorus_loop rest (accountsWithouTorus, Some [])
      else filterTorus_loop rest (accountsWithouTorus, d))"

text \<open>\<open>!wallet.defaultAccountAddress\<close>: \<open>null\<close>, \<open>undefined\<close> and \<open>''\<close> are falsy.\<close>

definition falsy :: "string option \<Rightarrow> bool" where
  "falsy d = (d = None \<or> d = Some [])"

definition filterTorusAccount_loaded :: "Wallet \<Rightarrow> Wallet" where
  "filterTorusAccount_loaded w =
     (case filterTorus_loop (accounts w) ([], defaultAccountAddress w) of
        (accountsWithouTorus, d) \<Rightarrow>
          w\<lparr>accounts := accountsWithouTorus,
            defaultAccountAddress :=
              (case accountsWithouTorus of
                 [] \<Rightarrow> d
               | a0 # _ \<Rightarrow> if falsy d then Some (address a0) else d)\<rparr>)"

text \<open>The result is the wallet as the call leaves it and the returned string.\<close>

definition filterTorusAccount :: "Persistence \<Rightarrow> WalletArg \<Rightarrow> error + Wallet \<times> string" where
  "filterTorusAccount env arg =
     (case resolveWallet env arg of
        Inl e \<Rightarrow> Inl e
      | Inr w \<Rightarrow> (let w' = filterTorusAccount_loaded w in Inr (w', toJson env w')))"

section \<open>\<open>accountDelete\<close>\<close>

definition accountDelete_loaded :: "string \<Rightarrow> Wallet \<Rightarrow> Wallet" where
  "accountDelete_loaded addr w =
     (let account = find (\<lambda>a. address a = addr) (accounts w);
          w1 = (if account \<noteq> None
                then w\<lparr>accounts := filter (\<lambda>a. address a \<noteq> addr) (accounts w)\<rparr>
                else w)
      in if defaultAccountAddress w1 = Some addr
         then w1\<lparr>defaultAccountAddress :=
                   (case accounts w1 of [] \<Rightarrow> Some [] | a0 # _ \<Rightarrow> Some (address a0))\<rparr>
         else w1)"

definition accountDelete :: "Persistence \<Rightarrow> string \<Rightarrow> WalletArg \<Rightarrow> error + Wallet \<times> string" where
  "accountDelete env addr arg =
     (case resolveWallet env arg of
        Inl e \<Rightarrow> Inl e
      | Inr w \<Rightarrow>
          (let w' = accountDelete_loaded addr w
           in Inr (w', if accounts w' = [] then [] else toJson env w')))"

section \<open>Registering an imported account\<close>

text \<open>
  Modelled from the spec: \<open>Wallet.addAccount\<close> and \<open>Wallet.setDefaultAccount\<close> are
  methods of the SDK's \<open>Wallet\<close> class, which is not part of the sources. Adding is a
  no-op when an account with the same address is present and appends otherwise;
  setting the default stores the address.
\<close>

definition Wallet_addAccount :: "Wallet \<Rightarrow> Account \<Rightarrow> Wallet" where
  "Wallet_addAccount w account =
     (if list_ex (\<lambda>ac. address ac = address account) (accounts w) then w
      else w\<lparr>accounts := accounts w @ [account]\<rparr>)"

definition Wallet_setDefaultAccount :: "Wallet \<Rightarrow> string \<Rightarrow> Wallet" where
  "Wallet_setDefaultAccount w addr = w\<lparr>defaultAccountAddress := Some addr\<rparr>"

text \<open>
  The end of \<open>accountImportPrivateKey\<close>, once \<open>Account.create\<close> has built the account:
  the guarded \<open>wallet.addAccount(account)\<close> and the unguarded
  \<open>wallet.setDefaultAccount(account.address.toBase58())\<close>.
\<close>

definition registerAccount :: "Wallet \<Rightarrow> Account \<Rightarrow> Wallet" where
  "registerAccount w account =
     (let w1 = (if \<not> list_ex (\<lambda>item. address item = address account) (accounts w)
                then Wallet_addAccount w account else w)
      in Wallet_setDefaultAccount w1 (address account))"

section \<open>Private keys\<close>

text \<open>
  A \<open>PrivateKey\<close> of the SDK: the key bytes (which the SDK keeps as their hex
  rendering, \<open>sk.toString('hex')\<close>), the \<open>KeyType\<close> and the curve of its
  \<open>KeyParameters\<close>. The enumerations \<open>KeyType\<close> and \<open>CurveLabel\<close> belong to the
  SDK, so they are type parameters.
\<close>

record ('k, 'c) PrivateKey =
  key :: "byte list"
  algorithm :: 'k
  parameters :: 'c

text \<open>The object literal \<open>scryptParams\<close> handed to \<open>Account.create\<close>.\<close>

record ScryptParams =
  blockSize :: nat
  cost :: nat
  parallel :: nat
  size_dk :: nat

text \<open>
  What \<open>accountApi.ts\<close> calls in the SDK and in \<open>Buffer\<close>: the constructors and
  enumeration members, the lookups \<open>fromHex\<close>, WIF encoding, hex decoding and
  \<open>Account.create\<close>. A call that may throw returns a sum.
\<close>

record ('k, 'c) SDK =
  Wallet_create :: "string \<Rightarrow> Wallet"
  KeyType_ECDSA :: 'k
  CurveLabel_SECP256R1 :: 'c
  KeyType_fromHex :: "byte \<Rightarrow> error + 'k"
  CurveLabel_fromHex :: "byte \<Rightarrow> error + 'c"
  PrivateKey_serializeWIF :: "('k, 'c) PrivateKey \<Rightarrow> string"
  Buffer_from_hex :: "string \<Rightarrow> byte list"
  Account_create ::
    "('k, 'c) PrivateKey \<Rightarrow> string \<Rightarrow> string \<Rightarrow> ScryptParams \<Rightarrow> error + Account"
  EncryptedKey_serializeWIF :: "Account \<Rightarrow> string"

text \<open>
  The \<open>Reader\<close> of \<open>ontology-ts-crypto\<close> over a buffer, which is not part of the
  sources, is the list of the bytes not yet read; a read past the end fails.
\<close>

definition readByte :: "byte list \<Rightarrow> error + byte \<times> byte list" where
  "readByte r = (case r of [] \<Rightarrow> Inl RangeError | x # rest \<Rightarrow> Inr (x, rest))"

definition readBytes :: "nat \<Rightarrow> byte list \<Rightarrow> error + byte list \<times> byte list" where
  "readBytes count r =
     (if length r < count then Inl RangeError else Inr (take count r, drop count r))"

text \<open>
  In the second branch the three reads come first, then the arguments of
  \<open>new PrivateKey\<close> from left to right: \<open>KeyType.fromHex\<close> before
  \<open>CurveLabel.fromHex\<close>.
\<close>

definition deserializePrivateKey :: "('k, 'c) SDK \<Rightarrow> string \<Rightarrow> error + ('k, 'c) PrivateKey" where
  "deserializePrivateKey sdk str =
     (let b = Buffer_from_hex sdk str
      in if length b = 32 then
           (case readBytes 32 b of
              Inl e \<Rightarrow> Inl e
            | Inr (sk, _) \<Rightarrow>
                Inr \<lparr>key = sk, algorithm = KeyType_ECDSA sdk,
                     parameters = CurveLabel_SECP256R1 sdk\<rparr>)
         else
           (case readByte b of
              Inl e \<Rightarrow> Inl e
            | Inr (algorithmHex, r1) \<Rightarrow>
           (case readByte r1 of
              Inl e \<Rightarrow> Inl e
            | Inr (curveHex, r2) \<Rightarrow>
           (case readBytes 32 r2 of
              Inl e \<Rightarrow> Inl e
            | Inr (sk, _) \<Rightarrow>
           (case KeyType_fromHex sdk algorithmHex of
              Inl e \<Rightarrow> Inl e
            | Inr alg \<Rightarrow>
           (case CurveLabel_fromHex sdk curveHex of
              Inl e \<Rightarrow> Inl e
            | Inr curve \<Rightarrow>
                Inr \<lparr>key = sk, algorithm = alg, parameters = curve\<rparr>))))))"

section \<open>WIF decoding\<close>

text \<open>
  Modelled from the spec: \<open>PrivateKey.deserializeWIF\<close> belongs to the SDK and is not
  part of the sources. It is the standard WIF decoding: the string is Base58-decoded,
  the last four bytes are checked against the first four bytes of the double SHA-256
  of the bytes before them, the version byte must be \<open>0x80\<close>, and the 32 bytes after
  the version byte are the key, followed by nothing or by the compression flag
  \<open>0x01\<close>. The key gets the SDK's default algorithm and curve, \<open>ECDSA\<close> and
  \<open>SECP256R1\<close>.
\<close>

type_synonym u32 = "32 word"

text \<open>SHA-256 on byte strings; the round constants and the initial hash value in decimal.\<close>

definition rotr :: "nat \<Rightarrow> u32 \<Rightarrow> u32" where
  "rotr n x = (drop_bit n x) OR (push_bit (32 - n) x)"

definition Ch :: "u32 \<Rightarrow> u32 \<Rightarrow> u32 \<Rightarrow> u32" where
  "Ch x y z = (x AND y) XOR (NOT x AND z)"

definition Maj :: "u32 \<Rightarrow> u32 \<Rightarrow> u32 \<Rightarrow> u32" where
  "Maj x y z = (x AND y) XOR (x AND z) XOR (y AND z)"

definition bsig0 :: "u32 \<Rightarrow> u32" where
  "bsig0 x = rotr 2 x XOR rotr 13 x XOR rotr 22 x"

definition bsig1 :: "u32 \<Rightarrow> u32" where
  "bsig1 x = rotr 6 x XOR rotr 11 x XOR rotr 25 x"

definition ssig0 :: "u32 \<Rightarrow> u32" where
  "ssig0 x = rotr 7 x XOR rotr 18 x XOR drop_bit 3 x"

definition ssig1 :: "u32 \<Rightarrow> u32" where
  "ssig1 x = rotr 17 x XOR rotr 19 x XOR drop_bit 10 x"

definition sha256_K :: "u32 list" where
  "sha256_K =
    [1116352408, 1899447441, 3049323471, 3921009573, 961987163, 1508970993,
     2453635748, 2870763221, 3624381080, 310598401, 607225278, 1426881987,
     1925078388, 2162078206, 2614888103, 3248222580, 3835390401, 4022224774,
     264347078, 604807628, 770255983, 1249150122, 1555081692, 1996064986,
     2554220882, 2821834349, 2952996808, 3210313671, 3336571891, 3584528711,
     113926993, 338241895, 666307205, 773529912, 1294757372, 1396182291,
     1695183700, 1986661051, 2177026350, 2456956037, 2730485921, 2820302411,
     3259730800, 3345764771, 3516065817, 3600352804, 4094571909, 275423344,
     430227734, 506948616, 659060556, 883997877, 958139571, 1322822218,
     1537002063, 1747873779, 1955562222, 2024104815, 2227730452, 2361852424,
     2428436474, 2756734187, 3204031479, 3329325298]"

definition sha256_H0 :: "u32 list" where
  "sha256_H0 =
    [1779033703, 3144134277, 1013904242, 2773480762,
     1359893119, 2600822924, 528734635, 1541459225]"

text \<open>The next word of the message schedule, from the sixteen words before it.\<close>

fun sha256_next_word :: "u32 list \<Rightarrow> u32" where
  "sha256_next_word (w0 # w1 # w2 # w3 # w4 # w5 # w6 # w7 # w8 # w9 # w10 # w11 # w12 #
      w13 # w14 # ws) = ssig1 w14 + w9 + ssig0 w1 + w0"
| "sha256_next_word ws = 0"

fun sha256_round :: "u32 \<Rightarrow> u32 \<Rightarrow> u32 list \<Rightarrow> u32 list" where
  "sha256_round k w [a, b, c, d, e, f, g, h] =
     (let t1 = h + bsig1 e + Ch e f g + k + w;
          t2 = bsig0 a + Maj a b c
      in [t1 + t2, a, b, c, d + t1, e, f, g])"
| "sha256_round k w s = s"

text \<open>One round for each constant; \<open>w # ws\<close> are the sixteen schedule words in use.\<close>

fun sha256_rounds :: "u32 list \<Rightarrow> u32 list \<Rightarrow> u32 list \<Rightarrow> u32 list" where
  "sha256_rounds (k # ks) (w # ws) s =
     sha256_rounds ks (ws @ [sha256_next_word (w # ws)]) (sha256_round k w s)"
| "sha256_rounds ks ws s = s"

fun be32 :: "byte list \<Rightarrow> u32 list" where
  "be32 (a # b # c # d # rest) =
     (push_bit 24 (ucast a) OR push_bit 16 (ucast b) OR push_bit 8 (ucast c) OR ucast d)
       # be32 rest"
| "be32 _ = []"

definition sha256_block :: "u32 list \<Rightarrow> byte list \<Rightarrow> u32 list" where
  "sha256_block h block = map2 (+) h (sha256_rounds sha256_K (be32 block) h)"

fun sha256_blocks :: "u32 list \<Rightarrow> byte list \<Rightarrow> u32 list" where
  "sha256_blocks h [] = h"
| "sha256_blocks h (b # bs) =
     sha256_blocks (sha256_block h (take 64 (b # bs))) (drop 64 (b # bs))"

definition be64 :: "nat \<Rightarrow> byte list" where
  "be64 v =
     map (\<lambda>k. ucast (drop_bit k (of_nat v :: 64 word))) [56, 48, 40, 32, 24, 16, 8, 0]"

definition sha256_pad :: "byte list \<Rightarrow> byte list" where
  "sha256_pad m =
     m @ [0x80] @ replicate ((119 - length m mod 64) mod 64) 0 @ be64 (8 * length m)"

fun u32_bytes :: "u32 \<Rightarrow> byte list" where
  "u32_bytes x = [ucast (drop_bit 24 x), ucast (drop_bit 16 x), ucast (drop_bit 8 x), ucast x]"

definition sha256 :: "byte list \<Rightarrow> byte list" where
  "sha256 m = concat (map u32_bytes (sha256_blocks sha256_H0 (sha256_pad m)))"

text \<open>
  Base58: the bytes are kept least significant first while the digits are read;
  each digit multiplies the number by 58 and adds its value. Every leading \<open>1\<close>,
  the last character apart, stands for a zero byte.
\<close>

definition base58_ALPHABET :: string where
  "base58_ALPHABET = ''123456789ABCDEFGHJKLMNPQRSTUVWXYZabcdefghijkmnopqrstuvwxyz''"

fun index_of :: "'a \<Rightarrow> 'a list \<Rightarrow> nat option" where
  "index_of c [] = None"
| "index_of c (x # xs) = (if c = x then Some 0 else map_option Suc (index_of c xs))"

fun base58_push :: "nat \<Rightarrow> nat list" where
  "base58_push carry =
     (if carry > 0 then (carry mod 256) # base58_push (carry div 256) else [])"

declare base58_push.simps [simp del]

fun base58_carry :: "nat \<Rightarrow> nat list \<Rightarrow> nat list" where
  "base58_carry carry [] = base58_push carry"
| "base58_carry carry (b # bytes) =
     ((carry + b * 58) mod 256) # base58_carry ((carry + b * 58) div 256) bytes"

fun base58_digits :: "string \<Rightarrow> nat list \<Rightarrow> nat list option" where
  "base58_digits [] bytes = Some bytes"
| "base58_digits (c # cs) bytes =
     (case index_of c base58_ALPHABET of
        None \<Rightarrow> None
      | Some v \<Rightarrow> base58_digits cs (base58_carry v bytes))"

definition base58_decode :: "string \<Rightarrow> error + byte list" where
  "base58_decode str =
     (if str = [] then Inr []
      else case base58_digits str [0] of
        None \<Rightarrow> Inl (Error ''Non-base58 character'')
      | Some bytes \<Rightarrow>
          Inr (map of_nat
                 (rev (bytes @
                       map (\<lambda>c. 0) (takeWhile (\<lambda>c. c = CHR ''1'') (butlast str))))))"

text \<open>A byte of a buffer in a bitwise comparison: \<open>undefined\<close> counts as 0.\<close>

definition byteAt :: "byte list \<Rightarrow> nat \<Rightarrow> byte" where
  "byteAt xs i = (if i < length xs then xs ! i else 0)"

definition bs58check_verified :: "byte list \<Rightarrow> bool" where
  "bs58check_verified buffer =
     (let payload = take (length buffer - 4) buffer;
          checksum = drop (length buffer - 4) buffer;
          newChecksum = sha256 (sha256 payload)
      in list_all (\<lambda>i. byteAt checksum i = byteAt newChecksum i) [0, 1, 2, 3])"

definition bs58check_decode :: "string \<Rightarrow> error + byte list" where
  "bs58check_decode str =
     (case base58_decode str of
        Inl e \<Rightarrow> Inl e
      | Inr buffer \<Rightarrow>
          if bs58check_verified buffer then Inr (take (length buffer - 4) buffer)
          else Inl (Error ''Invalid checksum''))"

definition wif_decode :: "byte \<Rightarrow> string \<Rightarrow> error + byte list" where
  "wif_decode version str =
     (case bs58check_decode str of
        Inl e \<Rightarrow> Inl e
      | Inr buffer \<Rightarrow>
          if buffer = [] \<or> byteAt buffer 0 \<noteq> version
          then Inl (Error ''Invalid network version'')
          else if length buffer = 33 then Inr (take 32 (drop 1 buffer))
          else if length buffer \<noteq> 34 then Inl (Error ''Invalid WIF length'')
          else if byteAt buffer 33 \<noteq> 0x01 then Inl (Error ''Invalid compression flag'')
          else Inr (take 32 (drop 1 buffer)))"

definition PrivateKey_deserializeWIF ::
  "('k, 'c) SDK \<Rightarrow> string \<Rightarrow> error + ('k, 'c) PrivateKey" where
  "PrivateKey_deserializeWIF sdk wifkey =
     (case wif_decode 128 wifkey of
        Inl e \<Rightarrow> Inl e
      | Inr k \<Rightarrow>
          Inr \<lparr>key = k, algorithm = KeyType_ECDSA sdk,
               parameters = CurveLabel_SECP256R1 sdk\<rparr>)"

section \<open>\<open>accountImportPrivateKey\<close>\<close>

text \<open>The choice of the decoder by the length of the input string.\<close>

definition importedPrivateKey :: "('k, 'c) SDK \<Rightarrow> string \<Rightarrow> error + ('k, 'c) PrivateKey" where
  "importedPrivateKey sdk privateKeyStr =
     (if length privateKeyStr = 52 then PrivateKey_deserializeWIF sdk privateKeyStr
      else deserializePrivateKey sdk privateKeyStr)"

record ImportResult =
  encryptedWif :: string
  wallet :: string
  wif :: string

text \<open>
  The two calls of \<open>uuid()\<close> are the inputs \<open>walletName\<close> and \<open>accountId\<close>; the
  wallet argument is \<open>None\<close> for \<open>null\<close>. An exception leaves the wallet as it was,
  since the wallet is written only after the last call that may throw.
\<close>

definition accountImportPrivateKey ::
  "Persistence \<Rightarrow> ('k, 'c) SDK \<Rightarrow> string \<Rightarrow> string \<Rightarrow>
   string \<Rightarrow> string \<Rightarrow> WalletArg option \<Rightarrow> string option \<Rightarrow> error + Wallet \<times> ImportResult" where
  "accountImportPrivateKey env sdk walletName accountId privateKeyStr password arg torusType =
     (case (case arg of None \<Rightarrow> Inr (Wallet_create sdk walletName)
                      | Some a \<Rightarrow> resolveWallet env a) of
        Inl e \<Rightarrow> Inl e
      | Inr w \<Rightarrow>
     (case scrypt w of Scrypt n r p dkLen \<Rightarrow>
     (let scryptParams = \<lparr>blockSize = r, cost = n, parallel = p, size_dk = dkLen\<rparr>
      in case importedPrivateKey sdk privateKeyStr of
        Inl e \<Rightarrow> Inl e
      | Inr privateKey \<Rightarrow>
     (let lbl = (case torusType of
                   None \<Rightarrow> accountId
                 | Some t \<Rightarrow> if t \<noteq> [] then accountId @ ''@'' @ t else accountId)
      in case Account_create sdk privateKey password lbl scryptParams of
        Inl e \<Rightarrow> Inl e
      | Inr account \<Rightarrow>
     (let w' = registerAccount w account
      in Inr (w', \<lparr>encryptedWif = EncryptedKey_serializeWIF sdk account,
                   wallet = toJson env w',
                   wif = PrivateKey_serializeWIF sdk privateKey\<rparr>))))))"

section \<open>Sequences of registry operations and the registry invariants\<close>

datatype operation =
    AddAccount Account
  | RemoveAccount string
  | FilterFederatedAccounts

fun applyOperation :: "Wallet \<Rightarrow> operation \<Rightarrow> Wallet" where
  "applyOperation w (AddAccount account) = registerAccount w account"
| "applyOperation w (RemoveAccount addr) = accountDelete_loaded addr w"
| "applyOperation w FilterFederatedAccounts = filterTorusAccount_loaded w"

fun applyOperations :: "Wallet \<Rightarrow> operation list \<Rightarrow> Wallet" where
  "applyOperations w [] = w"
| "applyOperations w (op # ops) = applyOperations (applyOperation w op) ops"

text \<open>
  The default pointer is empty exactly when there is no account, and otherwise it is
  the address of exactly one entry of the accounts list.
\<close>

definition defaultInvariant :: "Wallet \<Rightarrow> bool" where
  "defaultInvariant w =
     ((falsy (defaultAccountAddress w) \<longleftrightarrow> accounts w = []) \<and>
      (accounts w \<noteq> [] \<longrightarrow>
         length (filter (\<lambda>a. Some (address a) = defaultAccountAddress w) (accounts w)) = 1))"

text \<open>
  The invariants of the registry: no two accounts share an address, every address
  is a Base58 string and so not empty, and the default pointer is consistent.
\<close>

definition walletInvariant :: "Wallet \<Rightarrow> bool" where
  "walletInvariant w =
     (distinct (map address (accounts w)) \<and>
      (\<forall>a \<in> set (accounts w). address a \<noteq> []) \<and>
      defaultInvariant w)"

fun addsAddressed :: "operation \<Rightarrow> bool" where
  "addsAddressed (AddAccount account) = (address account \<noteq> [])"
| "addsAddressed _ = True"

section \<open>Concrete instances\<close>

text \<open>
  An instance of the SDK interface on which the functions can be evaluated. The
  members of \<open>KeyType\<close> and \<open>CurveLabel\<close> are their hex codes; hex decoding reads
  pairs of hex digits and stops at the first pair that is not one;
  \<open>Account.create\<close> is not available.
\<close>

definition hexDigit :: "char \<Rightarrow> nat option" where
  "hexDigit c = map_of
     [(CHR ''0'', 0), (CHR ''1'', 1), (CHR ''2'', 2), (CHR ''3'', 3), (CHR ''4'', 4),
      (CHR ''5'', 5), (CHR ''6'', 6), (CHR ''7'', 7), (CHR ''8'', 8), (CHR ''9'', 9),
      (CHR ''a'', 10), (CHR ''b'', 11), (CHR ''c'', 12), (CHR ''d'', 13), (CHR ''e'', 14),
      (CHR ''f'', 15), (CHR ''A'', 10), (CHR ''B'', 11), (CHR ''C'', 12), (CHR ''D'', 13),
      (CHR ''E'', 14), (CHR ''F'', 15)] c"

fun hexDecode :: "string \<Rightarrow> byte list" where
  "hexDecode (c1 # c2 # cs) =
     (case hexDigit c1 of
        None \<Rightarrow> []
      | Some h \<Rightarrow> (case hexDigit c2 of
                     None \<Rightarrow> []
                   | Some l \<Rightarrow> of_nat (16 * h + l) # hexDecode cs))"
| "hexDecode _ = []"

definition testSDK :: "(byte, byte) SDK" where
  "testSDK =
     \<lparr>Wallet_create = (\<lambda>name. \<lparr>accounts = [], defaultAccountAddress = Some [],
                                 scrypt = Scrypt 4096 8 8 64\<rparr>),
      KeyType_ECDSA = 0x12,
      CurveLabel_SECP256R1 = 2,
      KeyType_fromHex = (\<lambda>h. if h \<in> set [0x12, 0x13, 0x14] then Inr h
                              else Inl (Error ''Enum value not found'')),
      CurveLabel_fromHex = (\<lambda>h. if h \<in> set [1, 2, 3, 4, 20, 25] then Inr h
                                 else Inl (Error ''Enum value not found'')),
      PrivateKey_serializeWIF = (\<lambda>k. []),
      Buffer_from_hex = hexDecode,
      Account_create = (\<lambda>k pw lbl sp. Inl (Error ''not available'')),
      EncryptedKey_serializeWIF = (\<lambda>a. [])\<rparr>"

definition testPersistence :: Persistence where
  "testPersistence = \<lparr>getWallet = (\<lambda>s. Inl (Error ''Missing wallet data'')),
                       toJson = (\<lambda>w. ''{}'')\<rparr>"

text \<open>The hex rendering of the 32 bytes \<open>00\<close> to \<open>1f\<close>.\<close>

definition hex32 :: string where
  "hex32 = ''000102030405060708090a0b0c0d0e0f101112131415161718191a1b1c1d1e1f''"

text \<open>
  The WIF encoding of the same 32 bytes with version byte \<open>0x80\<close> and compression
  flag, and that string with its last character changed.
\<close>

definition wif32 :: string where
  "wif32 = ''KwDidQJHSE67VJ6MWRvbBKAxhD3F48DvqRT6JRqrjd7MHLBjGF7V''"

definition wif32_corrupted :: string where
  "wif32_corrupted = ''KwDidQJHSE67VJ6MWRvbBKAxhD3F48DvqRT6JRqrjd7MHLBjGF72''"

text \<open>
  The registry \<open>[A(label = "x"), B(label = "y@google"), C(label = "z@discord")]\<close>
  with B as the default account, a registry that holds only B, and the empty registry.
\<close>

definition accountA :: Account where
  "accountA = \<lparr>address = ''AddrA'', label = ''x'', publicKey = [], salt = [],
                encryptedKey = []\<rparr>"

definition accountB :: Account where
  "accountB = \<lparr>address = ''AddrB'', label = ''y@google'', publicKey = [], salt = [],
                encryptedKey = []\<rparr>"

definition accountC :: Account where
  "accountC = \<lparr>address = ''AddrC'', label = ''z@discord'', publicKey = [], salt = [],
                encryptedKey = []\<rparr>"

definition walletABC :: Wallet where
  "walletABC = \<lparr>accounts = [accountA, accountB, accountC],
                 defaultAccountAddress = Some ''AddrB'', scrypt = Scrypt 4096 8 8 64\<rparr>"

definition walletB :: Wallet where
  "walletB = \<lparr>accounts = [accountB],
               defaultAccountAddress = Some ''AddrB'', scrypt = Scrypt 4096 8 8 64\<rparr>"

definition walletEmpty :: Wallet where
  "walletEmpty = \<lparr>accounts = [], defaultAccountAddress = Some [],
                   scrypt = Scrypt 4096 8 8 64\<rparr>"

definition operationsExample :: "operation list" where
  "operationsExample =
     [FilterFederatedAccounts, AddAccount accountC, RemoveAccount ''AddrA'',
      AddAccount accountC, RemoveAccount ''AddrC'']"

lemmas example_defs =
  accountA_def accountB_def accountC_def walletABC_def walletB_def walletEmpty_def

section \<open>The API on a loaded wallet\<close>

lemma accountDelete_Loaded:
  "accountDelete env addr (Loaded w) =
     Inr (accountDelete_loaded addr w,
          if accounts (accountDelete_loaded addr w) = [] then []
          else toJson env (accountDelete_loaded addr w))"
  by (simp add: accountDelete_def Let_def)

lemma filterTorusAccount_Loaded:
  "filterTorusAccount env (Loaded w) =
     Inr (filterTorusAccount_loaded w, toJson env (filterTorusAccount_loaded w))"
  by (simp add: filterTorusAccount_def Let_def)

lemma accountImportPrivateKey_registers:
  "accountImportPrivateKey env sdk walletName accountId str password (Some (Loaded w)) torusType
     = Inr (w', res) \<Longrightarrow> \<exists>account. w' = registerAccount w account"
  by (auto simp: accountImportPrivateKey_def Let_def split: sum.splits Scrypt.splits)

lemma accountImportPrivateKey_key_error:
  "importedPrivateKey sdk str = Inl e \<Longrightarrow>
   accountImportPrivateKey env sdk walletName accountId str password (Some (Loaded w)) torusType
     = Inl e"
  by (simp add: accountImportPrivateKey_def Let_def split: Scrypt.splits)

section \<open>Splitting a label\<close>

lemma String_split_nonempty: "String_split sep s \<noteq> []"
  by (induction s) auto

lemma length_String_split: "length (String_split sep s) = Suc (count_list s sep)"
  by (induction s) (auto simp: String_split_nonempty)

lemma String_split_no_sep: "sep \<notin> set s \<Longrightarrow> String_split sep s = [s]"
  by (induction s) auto

lemma String_split_second:
  "count_list s sep = 1 \<Longrightarrow> String_split sep s ! 1 = tl (dropWhile (\<lambda>c. c \<noteq> sep) s)"
proof (induction s)
  case Nil
  then show ?case by simp
next
  case (Cons c cs)
  show ?case
  proof (cases "c = sep")
    case True
    with Cons.prems have "count_list cs sep = 0" by simp
    then have "sep \<notin> set cs" by (simp add: count_list_0_iff)
    with True show ?thesis by (simp add: String_split_no_sep)
  next
    case False
    with Cons.prems have c1: "count_list cs sep = 1" by simp
    then have "length (String_split sep cs) = 2" by (simp add: length_String_split)
    then have "tl (String_split sep cs) ! 0 = String_split sep cs ! 1"
      by (cases "String_split sep cs") auto
    with False Cons.IH [OF c1] show ?thesis by simp
  qed
qed

lemma isTorusAccount_examples:
  "\<not> isTorusAccount accountA" "isTorusAccount accountB" "isTorusAccount accountC"
  by (simp_all add: isTorusAccount_def example_defs)

text \<open>
  C7: \<open>isTorusAccount\<close> holds exactly when the label contains exactly one \<open>@\<close> and
  the text after it is exactly \<open>google\<close> or exactly \<open>discord\<close>; for every other
  label (no \<open>@\<close>, several \<open>@\<close>, another provider) it is false.
\<close>

theorem isTorusAccount_iff:
  "isTorusAccount account \<longleftrightarrow>
     count_list (label account) CHR ''@'' = 1 \<and>
     (tl (dropWhile (\<lambda>c. c \<noteq> CHR ''@'') (label account)) = ''google'' \<or>
      tl (dropWhile (\<lambda>c. c \<noteq> CHR ''@'') (label account)) = ''discord'')"
proof (cases "count_list (label account) CHR ''@'' = 1")
  case True
  from String_split_second [OF True] True show ?thesis
    unfolding isTorusAccount_def Let_def
    by (simp add: length_String_split)
next
  case False
  then show ?thesis
    unfolding isTorusAccount_def Let_def
    by (simp add: length_String_split)
qed

theorem isTorusAccount_iff_witness:
  "isTorusAccount accountB \<and> isTorusAccount accountC \<and> \<not> isTorusAccount accountA \<and>
   \<not> isTorusAccount (accountA\<lparr>label := ''a@b@google''\<rparr>) \<and>
   \<not> isTorusAccount (accountA\<lparr>label := ''a@github''\<rparr>)"
  using isTorusAccount_iff [of accountB] isTorusAccount_iff [of accountC]
    isTorusAccount_iff [of accountA] isTorusAccount_iff [of "accountA\<lparr>label := ''a@b@google''\<rparr>"]
    isTorusAccount_iff [of "accountA\<lparr>label := ''a@github''\<rparr>"]
  by (simp add: example_defs)

section \<open>Filtering the federated accounts\<close>

lemma filterTorus_loop_eq:
  "filterTorus_loop xs (acc, d) =
     (acc @ filter (\<lambda>a. \<not> isTorusAccount a) xs,
      if \<exists>a \<in> set xs. isTorusAccount a \<and> Some (address a) = d then Some [] else d)"
  by (induction xs arbitrary: acc d) auto

lemma filterTorusAccount_loaded_accounts:
  "accounts (filterTorusAccount_loaded w) = filter (\<lambda>a. \<not> isTorusAccount a) (accounts w)"
  by (simp add: filterTorusAccount_loaded_def filterTorus_loop_eq)

lemma filterTorusAccount_loaded_default_cleared:
  assumes "\<exists>a \<in> set (accounts w). isTorusAccount a \<and> Some (address a) = defaultAccountAddress w"
  shows "defaultAccountAddress (filterTorusAccount_loaded w) =
     (case filter (\<lambda>a. \<not> isTorusAccount a) (accounts w) of
        [] \<Rightarrow> Some [] | a0 # _ \<Rightarrow> Some (address a0))"
proof -
  from assms have "filterTorus_loop (accounts w) ([], defaultAccountAddress w) =
      (filter (\<lambda>a. \<not> isTorusAccount a) (accounts w), Some [])"
    by (simp add: filterTorus_loop_eq)
  then show ?thesis
    by (simp add: filterTorusAccount_loaded_def falsy_def split: list.splits)
qed

lemma filterTorusAccount_loaded_default_kept:
  assumes "\<not> (\<exists>a \<in> set (accounts w). isTorusAccount a \<and> Some (address a) = defaultAccountAddress w)"
  shows "defaultAccountAddress (filterTorusAccount_loaded w) =
     (case filter (\<lambda>a. \<not> isTorusAccount a) (accounts w) of
        [] \<Rightarrow> defaultAccountAddress w
      | a0 # _ \<Rightarrow> if falsy (defaultAccountAddress w) then Some (address a0)
                  else defaultAccountAddress w)"
proof -
  from assms have "filterTorus_loop (accounts w) ([], defaultAccountAddress w) =
      (filter (\<lambda>a. \<not> isTorusAccount a) (accounts w), defaultAccountAddress w)"
    unfolding filterTorus_loop_eq by auto
  then show ?thesis
    by (simp add: filterTorusAccount_loaded_def)
qed

text \<open>
  C5: on a loaded wallet \<open>filterTorusAccount\<close> returns, and the wallet it leaves holds
  exactly the accounts that are not federated, in their former order. If the default
  account was federated, the default pointer is the address of the first remaining
  account, and the cleared pointer \<open>''\<close> when none remains. For the registry
  \<open>[A(x), B(y@google), C(z@discord)]\<close> with default B the result is \<open>[A]\<close> with
  default A.
\<close>

theorem filterTorusAccount_removes_federated:
  "case filterTorusAccount env (Loaded w) of
     Inl e \<Rightarrow> False
   | Inr (w', json) \<Rightarrow>
       accounts w' = filter (\<lambda>a. \<not> isTorusAccount a) (accounts w) \<and>
       ((\<exists>a \<in> set (accounts w). isTorusAccount a \<and> Some (address a) = defaultAccountAddress w) \<longrightarrow>
          defaultAccountAddress w' =
            (case accounts w' of [] \<Rightarrow> Some [] | a0 # _ \<Rightarrow> Some (address a0)))"
  unfolding filterTorusAccount_def Let_def
  by (simp add: filterTorusAccount_loaded_accounts filterTorusAccount_loaded_default_cleared)

theorem filterTorusAccount_removes_federated_witness:
  "isTorusAccount accountB \<and> Some (address accountB) = defaultAccountAddress walletABC \<and>
   (case filterTorusAccount testPersistence (Loaded walletABC) of
     Inl e \<Rightarrow> False
   | Inr (w', json) \<Rightarrow>
       accounts w' = [accountA] \<and> defaultAccountAddress w' = Some (address accountA))"
  using filterTorusAccount_removes_federated [where env = testPersistence and w = walletABC]
    isTorusAccount_examples
  by (auto simp: example_defs split: sum.splits)

text \<open>
  C6: at a wallet that holds only the federated account B, \<open>filterTorusAccount\<close>
  empties the registry and returns \<open>toJson\<close> of the emptied wallet, where
  \<open>accountDelete\<close> of B on the same wallet returns the empty string.
\<close>

theorem filterTorusAccount_emptied_returns_toJson:
  "filterTorusAccount env (Loaded walletB) = Inr (walletEmpty, toJson env walletEmpty) \<and>
   accountDelete env ''AddrB'' (Loaded walletB) = Inr (walletEmpty, [])"
  by (simp add: filterTorusAccount_def filterTorusAccount_loaded_def accountDelete_def
      accountDelete_loaded_def isTorusAccount_def falsy_def Let_def example_defs)

section \<open>The default account\<close>

lemma find_address:
  "a \<in> set xs \<Longrightarrow> \<exists>a'. find (\<lambda>x. address x = address a) xs = Some a' \<and> a' \<in> set xs \<and>
      address a' = address a \<and> (distinct (map address xs) \<longrightarrow> a' = a)"
proof (induction xs)
  case Nil
  then show ?case by simp
next
  case (Cons x xs)
  then show ?case by (cases "address x = address a") (auto simp: image_iff)
qed

text \<open>
  C4: on a loaded wallet, if \<open>defaultAccountAddress\<close> is set and not empty and some
  account has that address, \<open>getAccount\<close> returns an account of the wallet with that
  address (the first one; the account itself when addresses are unique). If
  \<open>defaultAccountAddress\<close> is unset or empty it returns the first account of the
  list. If it is set and no account has that address, \<open>getAccount\<close> throws
  \<open>Default account not found in wallet\<close>; the wallet is not written.
\<close>

theorem getAccount_cases:
  "(\<forall>a d. defaultAccountAddress w = Some d \<and> d \<noteq> [] \<and> a \<in> set (accounts w) \<and> address a = d \<longrightarrow>
      (\<exists>a'. getAccount env (Loaded w) = Inr (Some a') \<and> a' \<in> set (accounts w) \<and> address a' = d \<and>
            (distinct (map address (accounts w)) \<longrightarrow> a' = a))) \<and>
   (falsy (defaultAccountAddress w) \<longrightarrow>
      getAccount env (Loaded w) = Inr (case accounts w of [] \<Rightarrow> None | a0 # _ \<Rightarrow> Some a0)) \<and>
   (\<forall>d. defaultAccountAddress w = Some d \<and> d \<noteq> [] \<and> (\<forall>a \<in> set (accounts w). address a \<noteq> d) \<longrightarrow>
      getAccount env (Loaded w) = Inl (Error ''Default account not found in wallet''))"
proof (intro conjI allI impI)
  fix a d
  assume h: "defaultAccountAddress w = Some d \<and> d \<noteq> [] \<and> a \<in> set (accounts w) \<and> address a = d"
  then have "a \<in> set (accounts w)" by simp
  from find_address [OF this] h
  show "\<exists>a'. getAccount env (Loaded w) = Inr (Some a') \<and> a' \<in> set (accounts w) \<and> address a' = d \<and>
            (distinct (map address (accounts w)) \<longrightarrow> a' = a)"
    by (auto simp: getAccount_def getAccount_loaded_def)
next
  assume "falsy (defaultAccountAddress w)"
  then show "getAccount env (Loaded w) = Inr (case accounts w of [] \<Rightarrow> None | a0 # _ \<Rightarrow> Some a0)"
    by (auto simp: falsy_def getAccount_def getAccount_loaded_def)
next
  fix d
  assume h: "defaultAccountAddress w = Some d \<and> d \<noteq> [] \<and> (\<forall>a \<in> set (accounts w). address a \<noteq> d)"
  then have "find (\<lambda>a. address a = d) (accounts w) = None"
    by (simp add: find_None_iff)
  with h show "getAccount env (Loaded w) = Inl (Error ''Default account not found in wallet'')"
    by (simp add: getAccount_def getAccount_loaded_def)
qed

theorem getAccount_cases_witness:
  "getAccount testPersistence (Loaded walletABC) = Inr (Some accountB) \<and>
   getAccount testPersistence (Loaded (walletABC\<lparr>defaultAccountAddress := None\<rparr>)) =
     Inr (Some accountA) \<and>
   getAccount testPersistence (Loaded (walletABC\<lparr>defaultAccountAddress := Some []\<rparr>)) =
     Inr (Some accountA) \<and>
   getAccount testPersistence (Loaded (walletABC\<lparr>defaultAccountAddress := Some ''AddrD''\<rparr>)) =
     Inl (Error ''Default account not found in wallet'')"
proof -
  have d: "distinct (map address (accounts walletABC))" by (simp add: example_defs)
  have 1: "getAccount testPersistence (Loaded walletABC) = Inr (Some accountB)"
    using getAccount_cases [where w = walletABC and env = testPersistence,
        THEN conjunct1, rule_format, of "''AddrB''" accountB] d
    by (auto simp: example_defs)
  have 2: "getAccount testPersistence (Loaded (walletABC\<lparr>defaultAccountAddress := None\<rparr>)) =
      Inr (Some accountA)"
    using getAccount_cases [where w = "walletABC\<lparr>defaultAccountAddress := None\<rparr>"
        and env = testPersistence]
    by (simp add: falsy_def example_defs)
  have 3: "getAccount testPersistence (Loaded (walletABC\<lparr>defaultAccountAddress := Some []\<rparr>)) =
      Inr (Some accountA)"
    using getAccount_cases [where w = "walletABC\<lparr>defaultAccountAddress := Some []\<rparr>"
        and env = testPersistence]
    by (simp add: falsy_def example_defs)
  have 4: "getAccount testPersistence (Loaded (walletABC\<lparr>defaultAccountAddress := Some ''AddrD''\<rparr>)) =
     Inl (Error ''Default account not found in wallet'')"
    using getAccount_cases [where w = "walletABC\<lparr>defaultAccountAddress := Some ''AddrD''\<rparr>"
        and env = testPersistence]
    by (simp add: example_defs)
  from 1 2 3 4 show ?thesis by simp
qed

text \<open>
  C10: for a loaded wallet with no accounts whose \<open>defaultAccountAddress\<close> is unset
  or empty, \<open>getAccount\<close> returns \<open>wallet.accounts[0]\<close> of the empty list, that is
  \<open>undefined\<close>, and does not throw; when \<open>getAccount\<close> throws on a loaded wallet, the
  error is \<open>Default account not found in wallet\<close> and \<open>defaultAccountAddress\<close> is
  set and not empty.
\<close>

theorem getAccount_empty_wallet:
  "(accounts w = [] \<and> falsy (defaultAccountAddress w) \<longrightarrow> getAccount env (Loaded w) = Inr None) \<and>
   (\<forall>e. getAccount env (Loaded w) = Inl e \<longrightarrow>
      e = Error ''Default account not found in wallet'' \<and>
      (\<exists>d. defaultAccountAddress w = Some d \<and> d \<noteq> []))"
  by (auto simp: falsy_def getAccount_def getAccount_loaded_def
      split: option.splits if_splits list.splits)

theorem getAccount_empty_wallet_witness:
  "accounts walletEmpty = [] \<and> falsy (defaultAccountAddress walletEmpty) \<and>
   getAccount testPersistence (Loaded walletEmpty) = Inr None \<and>
   getAccount testPersistence (Loaded (walletEmpty\<lparr>defaultAccountAddress := None\<rparr>)) = Inr None \<and>
   getAccount testPersistence (Loaded (walletEmpty\<lparr>defaultAccountAddress := Some ''AddrD''\<rparr>)) =
     Inl (Error ''Default account not found in wallet'')"
proof -
  have 1: "getAccount testPersistence (Loaded walletEmpty) = Inr None"
    using getAccount_empty_wallet [where w = walletEmpty and env = testPersistence]
    by (simp add: falsy_def example_defs)
  have 2: "getAccount testPersistence (Loaded (walletEmpty\<lparr>defaultAccountAddress := None\<rparr>)) =
      Inr None"
    using getAccount_empty_wallet [where w = "walletEmpty\<lparr>defaultAccountAddress := None\<rparr>"
        and env = testPersistence]
    by (simp add: falsy_def example_defs)
  have 3: "getAccount testPersistence (Loaded (walletEmpty\<lparr>defaultAccountAddress := Some ''AddrD''\<rparr>)) =
     Inl (Error ''Default account not found in wallet'')"
    using getAccount_empty_wallet [where w = "walletEmpty\<lparr>defaultAccountAddress := Some ''AddrD''\<rparr>"
        and env = testPersistence]
    by (cases "getAccount testPersistence
          (Loaded (walletEmpty\<lparr>defaultAccountAddress := Some ''AddrD''\<rparr>))")
       (simp_all add: getAccount_def getAccount_loaded_def example_defs)
  from 1 2 3 show ?thesis by (simp add: falsy_def example_defs)
qed

section \<open>Importing an account\<close>

lemma registerAccount_accounts:
  "accounts (registerAccount w account) =
     (if \<exists>x \<in> set (accounts w). address x = address account then accounts w
      else accounts w @ [account])"
  by (auto simp: registerAccount_def Wallet_addAccount_def Wallet_setDefaultAccount_def
      list_ex_iff Let_def)

lemma registerAccount_default:
  "defaultAccountAddress (registerAccount w account) = Some (address account)"
  by (simp add: registerAccount_def Wallet_setDefaultAccount_def Let_def)

text \<open>
  C2: registering an account whose address some account of the registry already has
  leaves the accounts list, and so its size, unchanged; registering an account with a
  fresh address appends it. In both cases \<open>defaultAccountAddress\<close> becomes the address
  of the registered account, since \<open>wallet.setDefaultAccount\<close> is outside the guard.
\<close>

theorem registerAccount_effect:
  "(if \<exists>x \<in> set (accounts w). address x = address account
    then accounts (registerAccount w account) = accounts w \<and>
         length (accounts (registerAccount w account)) = length (accounts w)
    else accounts (registerAccount w account) = accounts w @ [account]) \<and>
   defaultAccountAddress (registerAccount w account) = Some (address account)"
  by (simp add: registerAccount_accounts registerAccount_default)

theorem registerAccount_effect_witness:
  "(\<exists>x \<in> set (accounts walletABC). address x = address accountA) \<and>
   accounts (registerAccount walletABC accountA) = accounts walletABC \<and>
   defaultAccountAddress (registerAccount walletABC accountA) = Some ''AddrA'' \<and>
   \<not> (\<exists>x \<in> set (accounts walletB). address x = address accountA) \<and>
   accounts (registerAccount walletB accountA) = [accountB, accountA] \<and>
   defaultAccountAddress (registerAccount walletB accountA) = Some ''AddrA''"
  using registerAccount_effect [of walletABC accountA] registerAccount_effect [of walletB accountA]
  by (simp add: example_defs)

theorem registerAccount_existing_changes_default:
  "address accountA \<in> set (map address (accounts walletABC)) \<and>
   defaultAccountAddress (registerAccount walletABC accountA) \<noteq> defaultAccountAddress walletABC"
  by (simp add: registerAccount_def Wallet_setDefaultAccount_def Wallet_addAccount_def
      example_defs)

section \<open>The registry invariants\<close>

lemma length_filter_address:
  "distinct (map address xs) \<Longrightarrow>
   length (filter (\<lambda>a. Some (address a) = Some d) xs) = (if d \<in> address ` set xs then 1 else 0)"
  by (induction xs) (auto simp: image_iff)

lemma walletInvariant_alt:
  "walletInvariant w \<longleftrightarrow>
     distinct (map address (accounts w)) \<and>
     (\<forall>a \<in> set (accounts w). address a \<noteq> []) \<and>
     (if accounts w = [] then falsy (defaultAccountAddress w)
      else \<exists>a \<in> set (accounts w). defaultAccountAddress w = Some (address a))"
proof (cases "defaultAccountAddress w")
  case None
  then show ?thesis
    by (auto simp: walletInvariant_def defaultInvariant_def falsy_def)
next
  case (Some d)
  show ?thesis
  proof (cases "distinct (map address (accounts w))")
    case True
    from length_filter_address [OF True, of d] Some show ?thesis
      by (auto simp: walletInvariant_def defaultInvariant_def falsy_def image_iff
          split: if_splits)
  next
    case False
    then show ?thesis by (simp add: walletInvariant_def)
  qed
qed

lemma registerAccount_invariant:
  "walletInvariant w \<Longrightarrow> address account \<noteq> [] \<Longrightarrow> walletInvariant (registerAccount w account)"
proof (cases "\<exists>x \<in> set (accounts w). address x = address account")
  case True
  then obtain x where "x \<in> set (accounts w)" "address account = address x" by auto
  then have "\<exists>a \<in> set (accounts w). address account = address a" by blast
  with True show "walletInvariant w \<Longrightarrow> ?thesis"
    unfolding walletInvariant_alt
    by (auto simp: registerAccount_accounts registerAccount_default)
next
  case False
  then show "walletInvariant w \<Longrightarrow> address account \<noteq> [] \<Longrightarrow> ?thesis"
    unfolding walletInvariant_alt
    by (auto simp: registerAccount_accounts registerAccount_default)
qed

lemma accountDelete_loaded_accounts:
  "accounts (accountDelete_loaded addr w) = filter (\<lambda>a. address a \<noteq> addr) (accounts w)"
proof (cases "find (\<lambda>a. address a = addr) (accounts w)")
  case None
  then have "\<forall>a \<in> set (accounts w). address a \<noteq> addr"
    by (simp add: find_None_iff)
  then have "filter (\<lambda>a. address a \<noteq> addr) (accounts w) = accounts w"
    by (simp add: filter_id_conv)
  with None show ?thesis by (simp add: accountDelete_loaded_def Let_def)
next
  case (Some a)
  then show ?thesis by (simp add: accountDelete_loaded_def Let_def)
qed

lemma accountDelete_loaded_default:
  "defaultAccountAddress (accountDelete_loaded addr w) =
     (if defaultAccountAddress w = Some addr
      then (case filter (\<lambda>a. address a \<noteq> addr) (accounts w) of
              [] \<Rightarrow> Some [] | a0 # _ \<Rightarrow> Some (address a0))
      else defaultAccountAddress w)"
proof (cases "find (\<lambda>a. address a = addr) (accounts w)")
  case None
  then have "\<forall>a \<in> set (accounts w). address a \<noteq> addr"
    by (simp add: find_None_iff)
  then have "filter (\<lambda>a. address a \<noteq> addr) (accounts w) = accounts w"
    by (simp add: filter_id_conv)
  with None show ?thesis by (simp add: accountDelete_loaded_def Let_def)
next
  case (Some a)
  then show ?thesis by (simp add: accountDelete_loaded_def Let_def)
qed

lemma accountDelete_loaded_invariant:
  assumes "walletInvariant w"
  shows "walletInvariant (accountDelete_loaded addr w)"
proof -
  let ?ys = "filter (\<lambda>a. address a \<noteq> addr) (accounts w)"
  from assms have d: "distinct (map address ?ys)" and ne: "\<forall>a \<in> set ?ys. address a \<noteq> []"
    by (simp_all add: walletInvariant_alt distinct_map_filter)
  show ?thesis
  proof (cases "defaultAccountAddress w = Some addr")
    case True
    with d ne show ?thesis
      unfolding walletInvariant_alt
      by (cases ?ys)
         (simp_all add: accountDelete_loaded_accounts accountDelete_loaded_default falsy_def)
  next
    case False
    with assms d ne show ?thesis
      unfolding walletInvariant_alt
      by (auto simp: accountDelete_loaded_accounts accountDelete_loaded_default falsy_def
          filter_empty_conv split: if_splits)
  qed
qed

lemma filterTorusAccount_loaded_invariant:
  assumes "walletInvariant w"
  shows "walletInvariant (filterTorusAccount_loaded w)"
proof -
  let ?ys = "filter (\<lambda>a. \<not> isTorusAccount a) (accounts w)"
  from assms have d: "distinct (map address ?ys)" and ne: "\<forall>a \<in> set ?ys. address a \<noteq> []"
    by (simp_all add: walletInvariant_alt distinct_map_filter)
  show ?thesis
  proof (cases "\<exists>a \<in> set (accounts w). isTorusAccount a \<and> Some (address a) = defaultAccountAddress w")
    case True
    from d ne show ?thesis
      unfolding walletInvariant_alt
      by (cases ?ys)
         (simp_all add: filterTorusAccount_loaded_accounts
            filterTorusAccount_loaded_default_cleared [OF True] falsy_def)
  next
    case False
    note kept = filterTorusAccount_loaded_default_kept [OF False]
    show ?thesis
    proof (cases "accounts w = []")
      case True
      with assms show ?thesis
        unfolding walletInvariant_alt
        by (simp add: filterTorusAccount_loaded_accounts kept)
    next
      case nonempty: False
      with assms obtain a where a: "a \<in> set (accounts w)" "defaultAccountAddress w = Some (address a)"
        unfolding walletInvariant_alt by auto
      with False have "\<not> isTorusAccount a" by auto
      with a have mem: "a \<in> set ?ys" by simp
      from assms a have nf: "\<not> falsy (defaultAccountAddress w)"
        by (auto simp: walletInvariant_alt falsy_def)
      from nf have dflt: "defaultAccountAddress (filterTorusAccount_loaded w) = defaultAccountAddress w"
        by (simp add: kept split: list.splits)
      from mem have "?ys \<noteq> []" by (auto simp: filter_empty_conv)
      with d ne mem a dflt show ?thesis
        unfolding walletInvariant_alt
        by (auto simp: filterTorusAccount_loaded_accounts)
    qed
  qed
qed

lemma applyOperation_invariant:
  "walletInvariant w \<Longrightarrow> addsAddressed op \<Longrightarrow> walletInvariant (applyOperation w op)"
  by (cases op)
     (simp_all add: registerAccount_invariant accountDelete_loaded_invariant
        filterTorusAccount_loaded_invariant)

lemma applyOperations_invariant:
  "walletInvariant w \<Longrightarrow> \<forall>op \<in> set ops. addsAddressed op \<Longrightarrow>
   walletInvariant (applyOperations w ops)"
  by (induction ops arbitrary: w) (simp_all add: applyOperation_invariant)

text \<open>
  C1: from a registry that satisfies the registry invariants (addresses unique and,
  being Base58 strings, not empty; default pointer consistent), every finite sequence
  of account imports, \<open>accountDelete\<close> and \<open>filterTorusAccount\<close> calls leads to a
  registry whose \<open>defaultAccountAddress\<close> is empty if and only if \<open>accounts\<close> is empty,
  and otherwise is the address of exactly one account in \<open>accounts\<close>; the imported
  accounts have addresses that are not empty.
\<close>

theorem default_invariant_preserved:
  "walletInvariant w \<Longrightarrow> \<forall>op \<in> set ops. addsAddressed op \<Longrightarrow>
   defaultInvariant (applyOperations w ops)"
  using applyOperations_invariant [of w ops] by (simp add: walletInvariant_def)

theorem default_invariant_preserved_witness:
  "walletInvariant walletABC \<and>
   list_all addsAddressed operationsExample \<and>
   defaultInvariant (applyOperations walletABC operationsExample) \<and>
   applyOperations walletABC operationsExample = walletEmpty"
proof -
  have h1: "walletInvariant walletABC"
    by (simp add: walletInvariant_def defaultInvariant_def falsy_def example_defs)
  have h2: "\<forall>op \<in> set operationsExample. addsAddressed op"
    by (simp add: operationsExample_def example_defs)
  have h3: "applyOperations walletABC operationsExample = walletEmpty"
    by (simp add: operationsExample_def registerAccount_def Wallet_addAccount_def
        Wallet_setDefaultAccount_def accountDelete_loaded_def filterTorusAccount_loaded_def
        isTorusAccount_def falsy_def Let_def example_defs)
  from h1 h2 h3 default_invariant_preserved [OF h1 h2] show ?thesis
    by (simp add: list_all_iff)
qed

section \<open>Decoding the private key\<close>

lemma hexDecode_hex32: "hexDecode hex32 = map of_nat [0..<32]"
  by (simp add: hex32_def hexDigit_def upt_conv_Cons)

lemma length_sha256_round: "length (sha256_round k w s) = length s"
  by (cases "(k, w, s)" rule: sha256_round.cases) (simp_all add: Let_def)

lemma length_sha256_rounds: "length (sha256_rounds ks ws s) = length s"
  by (induction ks ws s rule: sha256_rounds.induct) (simp_all add: length_sha256_round)

lemma length_sha256_block: "length (sha256_block h block) = length h"
  by (simp add: sha256_block_def length_sha256_rounds)

lemma length_sha256_blocks: "length (sha256_blocks h bs) = length h"
  by (induction h bs rule: sha256_blocks.induct) (simp_all add: length_sha256_block)

lemma length_concat_u32_bytes: "length (concat (map u32_bytes xs)) = 4 * length xs"
  by (induction xs) simp_all

lemma length_sha256: "length (sha256 m) = 32"
  by (simp add: sha256_def length_concat_u32_bytes length_sha256_blocks sha256_H0_def)

lemma list4_eq_iff:
  assumes "length xs = 4" "length ys = 4"
  shows "xs = ys \<longleftrightarrow> list_all (\<lambda>i. byteAt xs i = byteAt ys i) [0, 1, 2, 3]"
proof -
  obtain a b c d where xs: "xs = [a, b, c, d]"
    using assms(1) by (auto simp: length_Suc_conv eval_nat_numeral)
  obtain a' b' c' d' where ys: "ys = [a', b', c', d']"
    using assms(2) by (auto simp: length_Suc_conv eval_nat_numeral)
  show ?thesis by (simp add: xs ys byteAt_def)
qed

lemma bs58check_verified_iff:
  assumes "4 \<le> length buffer"
  shows "bs58check_verified buffer \<longleftrightarrow>
     drop (length buffer - 4) buffer =
       take 4 (sha256 (sha256 (take (length buffer - 4) buffer)))"
proof -
  let ?digest = "sha256 (sha256 (take (length buffer - 4) buffer))"
  have l1: "length (drop (length buffer - 4) buffer) = 4" using assms by simp
  have l2: "length (take 4 ?digest) = 4" by (simp add: length_sha256)
  have "byteAt (take 4 ?digest) i = byteAt ?digest i" if "i < 4" for i
    using that by (simp add: byteAt_def length_sha256)
  then have "list_all (\<lambda>i. byteAt (drop (length buffer - 4) buffer) i = byteAt (take 4 ?digest) i)
        [0, 1, 2, 3] \<longleftrightarrow>
      list_all (\<lambda>i. byteAt (drop (length buffer - 4) buffer) i = byteAt ?digest i) [0, 1, 2, 3]"
    by simp
  with list4_eq_iff [OF l1 l2] show ?thesis
    by (simp add: bs58check_verified_def Let_def)
qed

lemma index_of_None: "index_of c xs = None \<longleftrightarrow> c \<notin> set xs"
  by (induction xs) auto

lemma base58_digits_None:
  "base58_digits str bytes = None \<longleftrightarrow> (\<exists>c \<in> set str. c \<notin> set base58_ALPHABET)"
proof (induction str arbitrary: bytes)
  case Nil
  then show ?case by simp
next
  case (Cons c cs)
  show ?case
  proof (cases "index_of c base58_ALPHABET")
    case None
    then have "c \<notin> set base58_ALPHABET"
      using index_of_None [of c base58_ALPHABET] by simp
    with None show ?thesis by simp
  next
    case (Some v)
    then have "c \<in> set base58_ALPHABET"
      using index_of_None [of c base58_ALPHABET] by simp
    with Some Cons.IH show ?thesis by simp
  qed
qed

lemma base58_decode_non_base58:
  "\<exists>c \<in> set str. c \<notin> set base58_ALPHABET \<Longrightarrow>
   base58_decode str = Inl (Error ''Non-base58 character'')"
  using base58_digits_None [of str "[0]"] by (auto simp: base58_decode_def)

lemma PrivateKey_deserializeWIF_Inr:
  assumes "PrivateKey_deserializeWIF sdk str = Inr pk"
  shows "\<exists>buffer. base58_decode str = Inr buffer \<and> 37 \<le> length buffer \<and>
     drop (length buffer - 4) buffer =
       take 4 (sha256 (sha256 (take (length buffer - 4) buffer))) \<and>
     buffer ! 0 = 128 \<and> key pk = take 32 (drop 1 buffer) \<and> length (key pk) = 32 \<and>
     algorithm pk = KeyType_ECDSA sdk \<and> parameters pk = CurveLabel_SECP256R1 sdk"
proof -
  from assms obtain k where k: "wif_decode 128 str = Inr k"
    and pk: "pk = \<lparr>key = k, algorithm = KeyType_ECDSA sdk, parameters = CurveLabel_SECP256R1 sdk\<rparr>"
    by (auto simp: PrivateKey_deserializeWIF_def split: sum.splits)
  from k obtain payload where p: "bs58check_decode str = Inr payload"
    by (auto simp: wif_decode_def split: sum.splits)
  from p obtain buffer where b: "base58_decode str = Inr buffer"
    and v: "bs58check_verified buffer" and pl: "payload = take (length buffer - 4) buffer"
    by (auto simp: bs58check_decode_def split: sum.splits if_splits)
  from k p have len: "length payload = 33 \<or> length payload = 34"
    and ver: "byteAt payload 0 = 128" and kk: "k = take 32 (drop 1 payload)"
    by (auto simp: wif_decode_def split: if_splits)
  from len pl have lb: "37 \<le> length buffer" by auto
  then have "4 \<le> length buffer" by simp
  from bs58check_verified_iff [OF this] v
  have c: "drop (length buffer - 4) buffer =
       take 4 (sha256 (sha256 (take (length buffer - 4) buffer)))" by simp
  from ver pl lb have v0: "buffer ! 0 = 128" by (simp add: byteAt_def)
  from kk pl lb have k2: "k = take 32 (drop 1 buffer)"
    by (simp add: drop_take min_def)
  from k2 lb have "length k = 32" by simp
  with b lb c v0 k2 pk show ?thesis by simp
qed

lemma PrivateKey_deserializeWIF_checksum:
  assumes "base58_decode str = Inr buffer" "4 \<le> length buffer"
    "drop (length buffer - 4) buffer \<noteq>
       take 4 (sha256 (sha256 (take (length buffer - 4) buffer)))"
  shows "PrivateKey_deserializeWIF sdk str = Inl (Error ''Invalid checksum'')"
  using assms bs58check_verified_iff [OF assms(2)]
  by (simp add: PrivateKey_deserializeWIF_def wif_decode_def bs58check_decode_def)

lemma PrivateKey_deserializeWIF_non_base58:
  "\<exists>c \<in> set str. c \<notin> set base58_ALPHABET \<Longrightarrow>
   PrivateKey_deserializeWIF sdk str = Inl (Error ''Non-base58 character'')"
  by (simp add: PrivateKey_deserializeWIF_def wif_decode_def bs58check_decode_def
      base58_decode_non_base58)

text \<open>The test vector: the Base58 decoding of the two strings and the two hashes.\<close>

lemma base58_decode_wif32:
  "base58_decode wif32 =
     Inr [128, 0, 1, 2, 3, 4, 5, 6, 7, 8, 9, 10, 11, 12, 13, 14, 15, 16, 17, 18, 19, 20, 21,
         22, 23, 24, 25, 26, 27, 28, 29, 30, 31, 1, 33, 245, 253, 104]"
  by (simp add: wif32_def base58_decode_def base58_ALPHABET_def base58_push.simps)

lemma base58_decode_wif32_corrupted:
  "base58_decode wif32_corrupted =
     Inr [128, 0, 1, 2, 3, 4, 5, 6, 7, 8, 9, 10, 11, 12, 13, 14, 15, 16, 17, 18, 19, 20, 21,
         22, 23, 24, 25, 26, 27, 28, 29, 30, 31, 1, 33, 245, 253, 77]"
  by (simp add: wif32_corrupted_def base58_decode_def base58_ALPHABET_def base58_push.simps)

lemma sha256_wif32_payload:
  "sha256 [128, 0, 1, 2, 3, 4, 5, 6, 7, 8, 9, 10, 11, 12, 13, 14, 15, 16, 17, 18, 19, 20,
          21, 22, 23, 24, 25, 26, 27, 28, 29, 30, 31, 1] =
     [232, 118, 55, 26, 200, 71, 127, 81, 67, 177, 107, 236, 199, 248, 134, 12, 209, 112,
     33, 149, 214, 241, 253, 121, 151, 111, 215, 4, 153, 226, 74, 83]"
  by code_simp

lemma sha256_wif32_digest:
  "sha256 [232, 118, 55, 26, 200, 71, 127, 81, 67, 177, 107, 236, 199, 248, 134, 12, 209,
          112, 33, 149, 214, 241, 253, 121, 151, 111, 215, 4, 153, 226, 74, 83] =
     [33, 245, 253, 104, 80, 68, 145, 166, 240, 134, 148, 229, 156, 186, 44, 170, 186, 200,
     199, 158, 243, 11, 2, 231, 213, 166, 1, 228, 209, 185, 233, 210]"
  by code_simp

text \<open>
  C8: a string of exactly 52 characters is decoded as WIF. The decoding succeeds only
  if the string is Base58, the last four decoded bytes are the first four bytes of
  the double SHA-256 of the bytes before them and the version byte is \<open>0x80\<close>; the
  key is then the 32 bytes after the version byte, with \<open>KeyType.ECDSA\<close> and
  \<open>CurveLabel.SECP256R1\<close>. A string with a character outside the Base58 alphabet
  and a string whose checksum does not match are rejected. Any other string is
  hex-decoded; 32 decoded bytes give the key with \<open>KeyType.ECDSA\<close> and
  \<open>CurveLabel.SECP256R1\<close> and those 32 bytes; any other length is read as an
  algorithm byte, a curve byte and a 32-byte key, and fails when a read runs past
  the end or when \<open>KeyType.fromHex\<close> or \<open>CurveLabel.fromHex\<close> rejects its tag
  byte. A failure of the decoding is the failure of \<open>accountImportPrivateKey\<close>.
\<close>

theorem importedPrivateKey_cases:
  "(length str = 52 \<longrightarrow>
      importedPrivateKey sdk str = PrivateKey_deserializeWIF sdk str \<and>
      (\<forall>pk. importedPrivateKey sdk str = Inr pk \<longrightarrow>
         (\<exists>buffer. base58_decode str = Inr buffer \<and> 37 \<le> length buffer \<and>
            drop (length buffer - 4) buffer =
              take 4 (sha256 (sha256 (take (length buffer - 4) buffer))) \<and>
            buffer ! 0 = 128 \<and> key pk = take 32 (drop 1 buffer) \<and> length (key pk) = 32 \<and>
            algorithm pk = KeyType_ECDSA sdk \<and> parameters pk = CurveLabel_SECP256R1 sdk)) \<and>
      (\<forall>buffer. base58_decode str = Inr buffer \<and> 4 \<le> length buffer \<and>
         drop (length buffer - 4) buffer \<noteq>
           take 4 (sha256 (sha256 (take (length buffer - 4) buffer))) \<longrightarrow>
         importedPrivateKey sdk str = Inl (Error ''Invalid checksum'')) \<and>
      ((\<exists>c \<in> set str. c \<notin> set base58_ALPHABET) \<longrightarrow>
         importedPrivateKey sdk str = Inl (Error ''Non-base58 character''))) \<and>
   (length str \<noteq> 52 \<and> length (Buffer_from_hex sdk str) = 32 \<longrightarrow>
      importedPrivateKey sdk str =
        Inr \<lparr>key = Buffer_from_hex sdk str, algorithm = KeyType_ECDSA sdk,
             parameters = CurveLabel_SECP256R1 sdk\<rparr>) \<and>
   (length str \<noteq> 52 \<and> length (Buffer_from_hex sdk str) \<noteq> 32 \<longrightarrow>
      importedPrivateKey sdk str =
        (case Buffer_from_hex sdk str of
           algorithmHex # curveHex # rest \<Rightarrow>
             if length rest < 32 then Inl RangeError
             else (case KeyType_fromHex sdk algorithmHex of
                     Inl e \<Rightarrow> Inl e
                   | Inr alg \<Rightarrow>
                       (case CurveLabel_fromHex sdk curveHex of
                          Inl e \<Rightarrow> Inl e
                        | Inr curve \<Rightarrow>
                            Inr \<lparr>key = take 32 rest, algorithm = alg, parameters = curve\<rparr>))
         | _ \<Rightarrow> Inl RangeError)) \<and>
   (\<forall>e. importedPrivateKey sdk str = Inl e \<longrightarrow>
      accountImportPrivateKey env sdk walletName accountId str password (Some (Loaded w))
        torusType = Inl e)"
proof (intro conjI allI impI)
  assume "length str = 52"
  then show "importedPrivateKey sdk str = PrivateKey_deserializeWIF sdk str"
    by (simp add: importedPrivateKey_def)
next
  fix pk
  assume "length str = 52" "importedPrivateKey sdk str = Inr pk"
  then have "PrivateKey_deserializeWIF sdk str = Inr pk"
    by (simp add: importedPrivateKey_def)
  then show "\<exists>buffer. base58_decode str = Inr buffer \<and> 37 \<le> length buffer \<and>
      drop (length buffer - 4) buffer =
        take 4 (sha256 (sha256 (take (length buffer - 4) buffer))) \<and>
      buffer ! 0 = 128 \<and> key pk = take 32 (drop 1 buffer) \<and> length (key pk) = 32 \<and>
      algorithm pk = KeyType_ECDSA sdk \<and> parameters pk = CurveLabel_SECP256R1 sdk"
    by (rule PrivateKey_deserializeWIF_Inr)
next
  fix buffer
  assume "length str = 52"
    and h: "base58_decode str = Inr buffer \<and> 4 \<le> length buffer \<and>
      drop (length buffer - 4) buffer \<noteq>
        take 4 (sha256 (sha256 (take (length buffer - 4) buffer)))"
  then have "importedPrivateKey sdk str = PrivateKey_deserializeWIF sdk str"
    by (simp add: importedPrivateKey_def)
  with h show "importedPrivateKey sdk str = Inl (Error ''Invalid checksum'')"
    by (simp add: PrivateKey_deserializeWIF_checksum)
next
  assume "length str = 52" and h: "\<exists>c \<in> set str. c \<notin> set base58_ALPHABET"
  then have "importedPrivateKey sdk str = PrivateKey_deserializeWIF sdk str"
    by (simp add: importedPrivateKey_def)
  with h show "importedPrivateKey sdk str = Inl (Error ''Non-base58 character'')"
    by (simp add: PrivateKey_deserializeWIF_non_base58)
next
  fix e
  assume "importedPrivateKey sdk str = Inl e"
  then show "accountImportPrivateKey env sdk walletName accountId str password
      (Some (Loaded w)) torusType = Inl e"
    by (rule accountImportPrivateKey_key_error)
qed (auto simp: importedPrivateKey_def deserializePrivateKey_def readByte_def readBytes_def
      Let_def split: list.splits sum.splits)

theorem importedPrivateKey_cases_witness:
  "length wif32 = 52 \<and>
   importedPrivateKey testSDK wif32 =
     Inr \<lparr>key = hexDecode hex32, algorithm = 0x12, parameters = 2\<rparr> \<and>
   length wif32_corrupted = 52 \<and>
   importedPrivateKey testSDK wif32_corrupted = Inl (Error ''Invalid checksum'') \<and>
   accountImportPrivateKey testPersistence testSDK ''w'' ''id'' wif32_corrupted ''pw''
     (Some (Loaded walletABC)) None = Inl (Error ''Invalid checksum'') \<and>
   length (take 52 hex32) = 52 \<and>
   importedPrivateKey testSDK (take 52 hex32) = Inl (Error ''Non-base58 character'') \<and>
   length hex32 \<noteq> 52 \<and> length (hexDecode hex32) = 32 \<and>
   importedPrivateKey testSDK hex32 =
     Inr \<lparr>key = hexDecode hex32, algorithm = 0x12, parameters = 2\<rparr> \<and>
   importedPrivateKey testSDK (''1202'' @ hex32) =
     Inr \<lparr>key = hexDecode hex32, algorithm = 0x12, parameters = 2\<rparr> \<and>
   importedPrivateKey testSDK (''1207'' @ hex32) = Inl (Error ''Enum value not found'')"
proof -
  note cases = importedPrivateKey_cases [where sdk = testSDK and env = testPersistence
      and walletName = "''w''" and accountId = "''id''" and password = "''pw''"
      and w = walletABC and torusType = None]
  have sdk: "KeyType_ECDSA testSDK = 0x12" "CurveLabel_SECP256R1 testSDK = 2"
    "Buffer_from_hex testSDK = hexDecode"
    by (simp_all add: testSDK_def)
  have w1: "length wif32 = 52" by (simp add: wif32_def)
  have "bs58check_verified
      [128, 0, 1, 2, 3, 4, 5, 6, 7, 8, 9, 10, 11, 12, 13, 14, 15, 16, 17, 18, 19, 20, 21,
       22, 23, 24, 25, 26, 27, 28, 29, 30, 31, 1, 33, 245, 253, 104]"
    by (simp add: bs58check_verified_def byteAt_def sha256_wif32_payload sha256_wif32_digest)
  then have "PrivateKey_deserializeWIF testSDK wif32 =
      Inr \<lparr>key = hexDecode hex32, algorithm = 0x12, parameters = 2\<rparr>"
    by (simp add: PrivateKey_deserializeWIF_def wif_decode_def bs58check_decode_def
        base58_decode_wif32 byteAt_def sdk hexDecode_hex32 upt_conv_Cons)
  with cases [where str = wif32] w1
  have w2: "importedPrivateKey testSDK wif32 =
      Inr \<lparr>key = hexDecode hex32, algorithm = 0x12, parameters = 2\<rparr>"
    by simp
  have c1: "length wif32_corrupted = 52" by (simp add: wif32_corrupted_def)
  define corrupted :: "byte list" where
    "corrupted =
      [128, 0, 1, 2, 3, 4, 5, 6, 7, 8, 9, 10, 11, 12, 13, 14, 15, 16, 17, 18, 19, 20, 21,
       22, 23, 24, 25, 26, 27, 28, 29, 30, 31, 1, 33, 245, 253, 77]"
  have "base58_decode wif32_corrupted = Inr corrupted \<and> 4 \<le> length corrupted \<and>
      drop (length corrupted - 4) corrupted \<noteq>
        take 4 (sha256 (sha256 (take (length corrupted - 4) corrupted)))"
    by (simp add: corrupted_def base58_decode_wif32_corrupted sha256_wif32_payload
        sha256_wif32_digest)
  with cases [where str = wif32_corrupted] c1
  have c2: "importedPrivateKey testSDK wif32_corrupted = Inl (Error ''Invalid checksum'')"
    by blast
  have c3: "accountImportPrivateKey testPersistence testSDK ''w'' ''id'' wif32_corrupted ''pw''
     (Some (Loaded walletABC)) None = Inl (Error ''Invalid checksum'')"
    using cases [where str = wif32_corrupted] c2 by blast
  have n1: "length (take 52 hex32) = 52" by (simp add: hex32_def)
  have "\<exists>c \<in> set (take 52 hex32). c \<notin> set base58_ALPHABET"
    by (simp add: hex32_def base58_ALPHABET_def)
  with cases [where str = "take 52 hex32"] n1
  have n2: "importedPrivateKey testSDK (take 52 hex32) = Inl (Error ''Non-base58 character'')"
    by blast
  have 4: "length hex32 \<noteq> 52" by (simp add: hex32_def)
  have 5: "length (hexDecode hex32) = 32" by (simp add: hexDecode_hex32)
  have 6: "importedPrivateKey testSDK hex32 =
     Inr \<lparr>key = hexDecode hex32, algorithm = 0x12, parameters = 2\<rparr>"
    using cases [where str = hex32] 4 5 by (simp add: sdk)
  have t1: "hexDecode (''1202'' @ hex32) = 0x12 # 2 # hexDecode hex32"
    by (simp add: hexDigit_def)
  have t2: "hexDecode (''1207'' @ hex32) = 0x12 # 7 # hexDecode hex32"
    by (simp add: hexDigit_def)
  have l: "length (''1202'' @ hex32) \<noteq> 52" "length (''1207'' @ hex32) \<noteq> 52"
    by (simp_all add: hex32_def)
  have 7: "importedPrivateKey testSDK (''1202'' @ hex32) =
     Inr \<lparr>key = hexDecode hex32, algorithm = 0x12, parameters = 2\<rparr>"
    using cases [where str = "''1202'' @ hex32"] l 5
    by (simp add: sdk t1 del: append.simps) (simp add: testSDK_def)
  have 8: "importedPrivateKey testSDK (''1207'' @ hex32) = Inl (Error ''Enum value not found'')"
    using cases [where str = "''1207'' @ hex32"] l 5
    by (simp add: sdk t2 del: append.simps) (simp add: testSDK_def)
  from w1 w2 c1 c2 c3 n1 n2 4 5 6 7 8 show ?thesis by blast
qed

end
